theory Spec2Isabelle
  imports Main
begin

section \<open>Exceptions\<close>

text \<open>
  A JavaScript computation either throws or returns a value. The only exception the
  modelled code can meet is the \<open>SyntaxError\<close> of \<open>JSON.parse\<close>.
\<close>

datatype exn = SyntaxError

type_synonym 'a throws = "exn + 'a"

definition and_then :: "'a throws \<Rightarrow> ('a \<Rightarrow> 'b throws) \<Rightarrow> 'b throws" where
  "and_then m k = (case m of Inl e \<Rightarrow> Inl e | Inr v \<Rightarrow> k v)"

text \<open>\<open>try { body } catch (e) { handler }\<close>\<close>

definition try_catch :: "'a throws \<Rightarrow> (exn \<Rightarrow> 'a throws) \<Rightarrow> 'a throws" where
  "try_catch body handler = (case body of Inl e \<Rightarrow> handler e | Inr v \<Rightarrow> Inr v)"

section \<open>The render-state resolver\<close>

subsection \<open>Data\<close>

text \<open>
  The error of a read state, seen as the code sees it (\<open>error as any\<close>): its
  \<open>message\<close>, and an optional \<open>response\<close> with an optional \<open>_bodyInit\<close>, taken
  as text. \<open>None\<close> stands for \<open>undefined\<close>/\<open>null\<close>.
\<close>

record response =
  bodyInit :: "string option"

record network_error =
  message :: string
  response :: "response option"

text \<open>
  \<open>ReadyState<P>\<close>, destructured by the resolver as \<open>{ error, props, retry }\<close>.
  The callback \<open>retry\<close> is opaque.
\<close>

record ('p, 'r) ReadyState =
  error :: "network_error option"
  props :: "'p option"
  retry :: 'r

text \<open>The object literal \<open>{ flex: 1 }\<close>.\<close>

record style =
  flex :: int

text \<open>
  The three JSX elements the resolver builds. The first argument of
  \<open>LoadFailureView\<close> is its \<open>onRetry\<close> attribute: \<open>None\<close> when the attribute is not
  written. \<open>ContainerElement\<close> carries the component and the properties object it is
  created with.
\<close>

datatype ('r, 'c, 'k, 'v) element =
    LoadFailureView "'r option" style
  | ContainerElement 'c "'k \<rightharpoonup> 'v"
  | Spinner style

text \<open>
  The second argument of \<open>console.error\<close>: \<open>data\<close> is the body text, or what
  \<open>JSON.parse\<close> made of it.
\<close>

datatype 'j logged = Raw string | Parsed 'j

type_synonym 'j console = "(string \<times> 'j logged) list"

text \<open>
  The closure returned by the factory: the captured \<open>Container\<close> and \<open>initialProps\<close>,
  and the captured variable \<open>retrying\<close>.
\<close>

record ('c, 'k, 'v) resolver =
  Container :: 'c
  initialProps :: "'k \<rightharpoonup> 'v"
  retrying :: bool

subsection \<open>Operations\<close>

text \<open>Truthiness of an optional string, and \<open>v || d\<close> on it.\<close>

definition truthy :: "string option \<Rightarrow> bool" where
  "truthy v = (case v of None \<Rightarrow> False | Some s \<Rightarrow> s \<noteq> [])"

definition or_else :: "string option \<Rightarrow> string \<Rightarrow> string" where
  "or_else v d = (case v of None \<Rightarrow> d | Some s \<Rightarrow> if s = [] then d else s)"

text \<open>
  The factory. The default parameter \<open>initialProps: object = {}\<close> applies when the
  argument is \<open>undefined\<close> (\<open>None\<close>).
\<close>

definition makeResolver :: "'c \<Rightarrow> ('k \<rightharpoonup> 'v) option \<Rightarrow> ('c, 'k, 'v) resolver" where
  "makeResolver C ip =
     \<lparr>Container = C,
      initialProps = (case ip of None \<Rightarrow> Map.empty | Some m \<Rightarrow> m),
      retrying = False\<rparr>"

text \<open>
  The diagnostic block of the error branch. \<open>JSON.parse\<close> is a parameter: it either
  throws or returns a value. The result is the list of \<open>console.error\<close> calls made.
\<close>

definition logNetworkError ::
  "(string \<Rightarrow> 'j throws) \<Rightarrow> network_error \<Rightarrow> ('j console) throws" where
  "logNetworkError JSON_parse networkError =
     (case response networkError of
        None \<Rightarrow> Inr []
      | Some resp \<Rightarrow>
          if truthy (bodyInit resp) then
            and_then
              (try_catch
                 (and_then (JSON_parse (or_else (bodyInit resp) ''{}''))
                           (\<lambda>j. Inr (Parsed j)))
                 (\<lambda>e. Inr (Raw (or_else (bodyInit resp) ''{}''))))
              (\<lambda>data. Inr [(''Metaphysics Error: '' @ message networkError @ [CHR 0x0A], data)])
          else Inr [])"

text \<open>
  One call of the returned function. The declared return type admits \<open>null\<close>
  (\<open>None\<close>). The result holds the returned element, the closure after the call and the
  \<open>console.error\<close> calls made.
\<close>

definition resolve ::
  "(string \<Rightarrow> 'j throws) \<Rightarrow> ('c, 'k, 'v) resolver \<Rightarrow> ('k \<rightharpoonup> 'v, 'r) ReadyState \<Rightarrow>
   (('r, 'c, 'k, 'v) element option \<times> ('c, 'k, 'v) resolver \<times> 'j console) throws" where
  "resolve JSON_parse r rs =
     (case error rs of
        Some e \<Rightarrow>
          and_then (logNetworkError JSON_parse e)
            (\<lambda>out.
               if retrying r then
                 Inr (Some (LoadFailureView None \<lparr>flex = 1\<rparr>), r\<lparr>retrying := False\<rparr>, out)
               else
                 Inr (Some (LoadFailureView (Some (retry rs)) \<lparr>flex = 1\<rparr>),
                      r\<lparr>retrying := True\<rparr>, out))
      | None \<Rightarrow>
          (case props rs of
             Some p \<Rightarrow> Inr (Some (ContainerElement (Container r) (initialProps r ++ p)), r, [])
           | None \<Rightarrow> Inr (Some (Spinner \<lparr>flex = 1\<rparr>), r, [])))"

text \<open>Successive calls of one resolver, each on the closure the previous call left.\<close>

fun resolveAll ::
  "(string \<Rightarrow> 'j throws) \<Rightarrow> ('c, 'k, 'v) resolver \<Rightarrow> ('k \<rightharpoonup> 'v, 'r) ReadyState list \<Rightarrow>
   (('r, 'c, 'k, 'v) element option list \<times> ('c, 'k, 'v) resolver \<times> 'j console) throws" where
  "resolveAll JSON_parse r [] = Inr ([], r, [])"
| "resolveAll JSON_parse r (rs # rest) =
     and_then (resolve JSON_parse r rs)
       (\<lambda>(el, r1, out1).
          and_then (resolveAll JSON_parse r1 rest)
            (\<lambda>(els, r2, out2). Inr (el # els, r2, out1 @ out2)))"

text \<open>
  Whether two successive calls of the resolver \<open>r\<close> on the same read state return
  equal elements.
\<close>

definition sameOutputTwice ::
  "(string \<Rightarrow> 'j throws) \<Rightarrow> ('c, 'k, 'v) resolver \<Rightarrow> ('k \<rightharpoonup> 'v, 'r) ReadyState \<Rightarrow> bool" where
  "sameOutputTwice JSON_parse r rs =
     (case resolveAll JSON_parse r [rs, rs] of
        Inr ([a, b], r2, out) \<Rightarrow> a = b
      | _ \<Rightarrow> False)"

subsection \<open>Example inputs\<close>

text \<open>A \<open>JSON.parse\<close> that rejects every text, and one that accepts every text.\<close>

definition failingParse :: "string \<Rightarrow> unit throws" where
  "failingParse s = Inl SyntaxError"

definition acceptingParse :: "string \<Rightarrow> unit throws" where
  "acceptingParse s = Inr ()"

definition exError :: network_error where
  "exError = \<lparr>message = ''Network request failed'',
              response = Some \<lparr>bodyInit = Some ''<html>''\<rparr>\<rparr>"

definition exErrorState :: "(string \<rightharpoonup> int, nat) ReadyState" where
  "exErrorState = \<lparr>error = Some exError, props = None, retry = 7\<rparr>"

definition exPropsState :: "(string \<rightharpoonup> int, nat) ReadyState" where
  "exPropsState = \<lparr>error = None, props = Some [''a'' \<mapsto> 2, ''b'' \<mapsto> 3], retry = 7\<rparr>"

definition exLoadingState :: "(string \<rightharpoonup> int, nat) ReadyState" where
  "exLoadingState = \<lparr>error = None, props = None, retry = 7\<rparr>"

definition exResolver :: "(string, string, int) resolver" where
  "exResolver = makeResolver ''Gene'' (Some [''a'' \<mapsto> 1])"

section \<open>The tracking schema\<close>

text \<open>The enumerations of \<open>Schema\<close>, each with the string a member stands for.\<close>

datatype PageNames =
    ArtistPage | ConversationPage | ConsignmentsWelcome | ConsignmentsOverView
  | ConsignmentsSubmission | InboxPage | InquiryPage

fun PageNames_value :: "PageNames \<Rightarrow> string" where
  "PageNames_value ArtistPage = ''Artist''"
| "PageNames_value ConversationPage = ''Conversation''"
| "PageNames_value ConsignmentsWelcome = ''ConsignmentsWelcome''"
| "PageNames_value ConsignmentsOverView = ''ConsignmentsOverview''"
| "PageNames_value ConsignmentsSubmission = ''ConsignmentsSubmit''"
| "PageNames_value InboxPage = ''Inbox''"
| "PageNames_value InquiryPage = ''Inquiry''"

datatype OwnerEntityTypes =
  Artist | Artwork | Conversation | Gene | Show | Invoice | Consignment

fun OwnerEntityTypes_value :: "OwnerEntityTypes \<Rightarrow> string" where
  "OwnerEntityTypes_value Artist = ''Artist''"
| "OwnerEntityTypes_value Artwork = ''Artwork''"
| "OwnerEntityTypes_value Conversation = ''Conversation''"
| "OwnerEntityTypes_value Gene = ''Gene''"
| "OwnerEntityTypes_value Show = ''Show''"
| "OwnerEntityTypes_value Invoice = ''Invoice''"
| "OwnerEntityTypes_value Consignment = ''ConsignmentSubmission''"

datatype ActionTypes = Tap | Fail | Success

fun ActionTypes_value :: "ActionTypes \<Rightarrow> string" where
  "ActionTypes_value Tap = ''tap''"
| "ActionTypes_value Fail = ''fail''"
| "ActionTypes_value Success = ''success''"

datatype ActionNames =
    ArtistFollow | ArtistUnfollow
  | ConversationSelected | ConversationSendReply | ConversationAttachmentShow
  | ConversationAttachmentArtwork | ConversationAttachmentInvoice | ConversationLink
  | InquiryCancel | InquirySend
  | ConsignmentDraftCreated | ConsignmentSubmitted

fun ActionNames_value :: "ActionNames \<Rightarrow> string" where
  "ActionNames_value ArtistFollow = ''artistFollow''"
| "ActionNames_value ArtistUnfollow = ''artistUnfollow''"
| "ActionNames_value ConversationSelected = ''conversationSelected''"
| "ActionNames_value ConversationSendReply = ''conversationSendReply''"
| "ActionNames_value ConversationAttachmentShow = ''conversationAttachmentShow''"
| "ActionNames_value ConversationAttachmentArtwork = ''conversationAttachmentArtwork''"
| "ActionNames_value ConversationAttachmentInvoice = ''conversationAttachmentInvoice''"
| "ActionNames_value ConversationLink = ''conversationLinkUsed''"
| "ActionNames_value InquiryCancel = ''inquiryCancel''"
| "ActionNames_value InquirySend = ''inquirySend''"
| "ActionNames_value ConsignmentDraftCreated = ''consignmentDraftCreated''"
| "ActionNames_value ConsignmentSubmitted = ''consignmentSubmitted''"

text \<open>The interfaces of \<open>Schema\<close>. An optional field is an \<open>option\<close>.\<close>

record Global =
  action_type :: ActionTypes
  action_name :: ActionNames
  additional_properties :: "(string \<rightharpoonup> string) option"

record Entity = Global +
  owner_id :: string
  owner_slug :: string
  owner_type :: OwnerEntityTypes

record PageView =
  context_screen :: PageNames
  context_screen_owner_slug :: "string option"
  context_screen_owner_id :: "string option"
  context_screen_owner_type :: OwnerEntityTypes

text \<open>The members of \<open>OwnerEntityTypes\<close>, in the order of the declaration.\<close>

definition allOwnerEntityTypes :: "OwnerEntityTypes list" where
  "allOwnerEntityTypes = [Artist, Artwork, Conversation, Gene, Show, Invoice, Consignment]"

section \<open>The page-view wrapper\<close>

text \<open>
  \<open>TrackingInfo<Schema.PageView, P, null>\<close>: the record itself, or a function of the
  incoming properties.
\<close>

datatype 'p TrackingInfo = Literal PageView | FromProps "'p \<Rightarrow> PageView"

text \<open>
  The options object handed to the wrapper. \<open>dispatch\<close> is called with a record; it
  acts on the world \<open>'w\<close> the native bridge lives in and returns a value of type \<open>'a\<close>.
\<close>

record ('a, 'w) Options =
  dispatch :: "PageView \<Rightarrow> 'w \<Rightarrow> 'a \<times> 'w"
  dispatchOnMount :: bool

text \<open>What the wrapper is made from: the tracking info and the options.\<close>

record ('p, 'a, 'w) Tracked =
  trackingInfo :: "'p TrackingInfo"
  options :: "('a, 'w) Options"

text \<open>
  Modelled from the spec: the instrumentation facility, the default export of the
  library react-tracking (imported as \<open>_track\<close>), is not among the sources. The
  specification gives it tracking info and a configurable dispatch hook (\<open>dispatch\<close>,
  \<open>dispatchOnMount\<close>); the wrapper it returns is kept as that pair.
\<close>

definition lib_track ::
  "'p TrackingInfo \<Rightarrow> ('a, 'w) Options \<Rightarrow> ('p, 'a, 'w) Tracked" where
  "lib_track info opts = \<lparr>trackingInfo = info, options = opts\<rparr>"

text \<open>The record a tracking info stands for, given the incoming properties.\<close>

definition trackingData :: "'p TrackingInfo \<Rightarrow> 'p \<Rightarrow> PageView" where
  "trackingData info p = (case info of Literal d \<Rightarrow> d | FromProps f \<Rightarrow> f p)"

text \<open>What the host does with a wrapped component: mount, update, unmount.\<close>

datatype 'p lifecycle = Mount 'p | Update 'p | Unmount

text \<open>
  Modelled from the spec: the life cycle of the wrapper of react-tracking, which is not
  among the sources. A wrapper that dispatches on mount computes, on every mount of the
  wrapped component, one record as a function of the incoming properties and hands it
  to the dispatch hook once; it does not dispatch on update. What the hook returns is
  dropped.
\<close>

fun lifecycleStep :: "('p, 'a, 'w) Tracked \<Rightarrow> 'w \<Rightarrow> 'p lifecycle \<Rightarrow> 'w" where
  "lifecycleStep t w (Mount p) =
     (if dispatchOnMount (options t)
      then snd (dispatch (options t) (trackingData (trackingInfo t) p) w)
      else w)"
| "lifecycleStep t w (Update p) = w"
| "lifecycleStep t w Unmount = w"

fun lifecycleRun :: "('p, 'a, 'w) Tracked \<Rightarrow> 'w \<Rightarrow> 'p lifecycle list \<Rightarrow> 'w" where
  "lifecycleRun t w [] = w"
| "lifecycleRun t w (ev # evs) = lifecycleRun t (lifecycleStep t w ev) evs"

text \<open>The properties the wrapped component was mounted with, in order.\<close>

fun mountProps :: "'p lifecycle list \<Rightarrow> 'p list" where
  "mountProps [] = []"
| "mountProps (Mount p # evs) = p # mountProps evs"
| "mountProps (Update p # evs) = mountProps evs"
| "mountProps (Unmount # evs) = mountProps evs"

text \<open>\<open>export const track: Track = _track\<close>\<close>

definition track :: "'p TrackingInfo \<Rightarrow> ('a, 'w) Options \<Rightarrow> ('p, 'a, 'w) Tracked" where
  "track = lib_track"

text \<open>
  \<open>pageViewTrack\<close>. The native sink \<open>Events.postEvent\<close> is a parameter: called with one
  record, it acts on the world and returns a value. \<open>pageViewTrackOptions\<close> is the
  object literal passed as the options.
\<close>

definition pageViewTrackOptions :: "(PageView \<Rightarrow> 'w \<Rightarrow> 'a \<times> 'w) \<Rightarrow> ('a, 'w) Options" where
  "pageViewTrackOptions postEvent =
     \<lparr>dispatch = (\<lambda>data. postEvent data), dispatchOnMount = True\<rparr>"

definition pageViewTrack ::
  "(PageView \<Rightarrow> 'w \<Rightarrow> 'a \<times> 'w) \<Rightarrow> 'p TrackingInfo \<Rightarrow> ('p, 'a, 'w) Tracked" where
  "pageViewTrack postEvent info = lib_track info (pageViewTrackOptions postEvent)"

text \<open>
  Modelled from the spec: \<open>Events.postEvent\<close> (lib/NativeModules/Events) is not among
  the sources. It accepts one event record and posts it, fire and forget, with no
  return value and no acknowledgment. The world is the list of the records posted so
  far, in call order.
\<close>

definition Events_postEvent :: "PageView \<Rightarrow> PageView list \<Rightarrow> unit \<times> PageView list" where
  "Events_postEvent data posted = ((), posted @ [data])"

section \<open>Properties of the resolver\<close>

lemma logNetworkError_returns: "\<exists>out. logNetworkError P e = Inr out"
  by (cases "response e"; cases "P (or_else (bodyInit (the (response e))) ''{}'')")
     (simp_all add: logNetworkError_def and_then_def try_catch_def)

lemma logNetworkError_body:
  assumes "response e = Some resp" and "bodyInit resp = Some b" and "b \<noteq> []"
  shows "logNetworkError P e =
           Inr [(''Metaphysics Error: '' @ message e @ [CHR 0x0A],
                 (case P b of Inl x \<Rightarrow> Raw b | Inr j \<Rightarrow> Parsed j))]"
  using assms
  by (cases "P b") (simp_all add: logNetworkError_def and_then_def try_catch_def truthy_def or_else_def)

lemma resolve_error:
  assumes "error rs = Some e"
  shows "\<exists>out. logNetworkError P e = Inr out \<and> resolve P r rs =
           Inr (Some (LoadFailureView (if retrying r then None else Some (retry rs)) \<lparr>flex = 1\<rparr>),
                r\<lparr>retrying := \<not> retrying r\<rparr>, out)"
proof -
  obtain out where "logNetworkError P e = Inr out"
    using logNetworkError_returns by blast
  with assms show ?thesis
    by (simp add: resolve_def and_then_def)
qed

lemma resolve_props:
  assumes "error rs = None" and "props rs = Some p"
  shows "resolve P r rs = Inr (Some (ContainerElement (Container r) (initialProps r ++ p)), r, [])"
  using assms by (simp add: resolve_def)

lemma resolve_loading:
  assumes "error rs = None" and "props rs = None"
  shows "resolve P r rs = Inr (Some (Spinner \<lparr>flex = 1\<rparr>), r, [])"
  using assms by (simp add: resolve_def)

lemma resolve_no_error:
  assumes "error rs = None"
  shows "\<exists>el. resolve P r rs = Inr (Some el, r, [])"
  using assms by (cases "props rs") (simp_all add: resolve_def)

lemma retrying_toggle_twice: "r\<lparr>retrying := \<not> retrying r\<rparr>\<lparr>retrying := retrying r\<rparr> = r"
  by simp

lemma exErrorState_simps:
  "error exErrorState = Some exError" "props exErrorState = None" "retry exErrorState = 7"
  by (simp_all add: exErrorState_def)

lemma exPropsState_simps:
  "error exPropsState = None" "props exPropsState = Some [''a'' \<mapsto> 2, ''b'' \<mapsto> 3]"
  by (simp_all add: exPropsState_def)

lemma exLoadingState_simps:
  "error exLoadingState = None" "props exLoadingState = None"
  by (simp_all add: exLoadingState_def)

lemma exResolver_simps:
  "Container exResolver = ''Gene''" "initialProps exResolver = [''a'' \<mapsto> 1]"
  "retrying exResolver = False"
  by (simp_all add: exResolver_def makeResolver_def)

text \<open>
  C1. A call with an error while \<open>retrying\<close> is false returns the failure view with
  the supplied \<open>retry\<close> and the style \<open>{ flex: 1 }\<close> and sets \<open>retrying\<close>; a call with
  an error while \<open>retrying\<close> is true returns the failure view without \<open>onRetry\<close> and
  clears \<open>retrying\<close>. A resolver from the factory starts with \<open>retrying\<close> false, and on
  the read states error, error, props it returns the failure view with retry, the
  failure view without retry, and the container with the merged properties.
\<close>

theorem C1_error_retry_toggle:
  assumes "error rs = Some e"
    and "error rs1 = Some e1" and "error rs2 = Some e2"
    and "error rs3 = None" and "props rs3 = Some p"
  shows "retrying (makeResolver C ip) = False \<and>
         (\<not> retrying r \<longrightarrow> (\<exists>out. resolve P r rs =
            Inr (Some (LoadFailureView (Some (retry rs)) \<lparr>flex = 1\<rparr>), r\<lparr>retrying := True\<rparr>, out))) \<and>
         (retrying r \<longrightarrow> (\<exists>out. resolve P r rs =
            Inr (Some (LoadFailureView None \<lparr>flex = 1\<rparr>), r\<lparr>retrying := False\<rparr>, out))) \<and>
         (\<exists>out. resolveAll P (makeResolver C ip) [rs1, rs2, rs3] =
            Inr ([Some (LoadFailureView (Some (retry rs1)) \<lparr>flex = 1\<rparr>),
                  Some (LoadFailureView None \<lparr>flex = 1\<rparr>),
                  Some (ContainerElement C (initialProps (makeResolver C ip) ++ p))],
                 makeResolver C ip, out))"
proof -
  let ?r0 = "makeResolver C ip"
  let ?r1 = "?r0\<lparr>retrying := True\<rparr>"
  have fresh: "retrying ?r0 = False"
    by (simp add: makeResolver_def)
  have off: "\<not> retrying r \<longrightarrow> (\<exists>out. resolve P r rs =
      Inr (Some (LoadFailureView (Some (retry rs)) \<lparr>flex = 1\<rparr>), r\<lparr>retrying := True\<rparr>, out))"
    using resolve_error [OF assms(1), of P r] by auto
  have on: "retrying r \<longrightarrow> (\<exists>out. resolve P r rs =
      Inr (Some (LoadFailureView None \<lparr>flex = 1\<rparr>), r\<lparr>retrying := False\<rparr>, out))"
    using resolve_error [OF assms(1), of P r] by auto
  obtain out1 where s1: "resolve P ?r0 rs1 =
      Inr (Some (LoadFailureView (Some (retry rs1)) \<lparr>flex = 1\<rparr>), ?r1, out1)"
    using resolve_error [OF assms(2), of P ?r0] by (auto simp: makeResolver_def)
  obtain out2 where s2: "resolve P ?r1 rs2 =
      Inr (Some (LoadFailureView None \<lparr>flex = 1\<rparr>), ?r0, out2)"
    using resolve_error [OF assms(3), of P ?r1] by (auto simp: makeResolver_def)
  have s3: "resolve P ?r0 rs3 =
      Inr (Some (ContainerElement C (initialProps ?r0 ++ p)), ?r0, [])"
    using resolve_props [OF assms(4,5), of P ?r0] by (simp add: makeResolver_def)
  have run: "\<exists>out. resolveAll P ?r0 [rs1, rs2, rs3] =
           Inr ([Some (LoadFailureView (Some (retry rs1)) \<lparr>flex = 1\<rparr>),
                 Some (LoadFailureView None \<lparr>flex = 1\<rparr>),
                 Some (ContainerElement C (initialProps ?r0 ++ p))],
                ?r0, out)"
    by (simp add: s1 s2 s3 and_then_def)
  from fresh off on run show ?thesis by blast
qed

theorem C1_error_retry_toggle_witness:
  "error exErrorState = Some exError \<and> error exPropsState = None \<and>
   props exPropsState = Some [''a'' \<mapsto> 2, ''b'' \<mapsto> 3] \<and>
   \<not> retrying exResolver \<and>
   (\<exists>out. resolve failingParse exResolver exErrorState =
      Inr (Some (LoadFailureView (Some 7) \<lparr>flex = 1\<rparr>), exResolver\<lparr>retrying := True\<rparr>, out)) \<and>
   retrying (exResolver\<lparr>retrying := True\<rparr>) \<and>
   (\<exists>out. resolve failingParse (exResolver\<lparr>retrying := True\<rparr>) exErrorState =
      Inr (Some (LoadFailureView None \<lparr>flex = 1\<rparr>), exResolver\<lparr>retrying := False\<rparr>, out)) \<and>
   (\<exists>out. resolveAll failingParse exResolver [exErrorState, exErrorState, exPropsState] =
      Inr ([Some (LoadFailureView (Some 7) \<lparr>flex = 1\<rparr>),
            Some (LoadFailureView None \<lparr>flex = 1\<rparr>),
            Some (ContainerElement ''Gene'' [''a'' \<mapsto> 2, ''b'' \<mapsto> 3])],
           exResolver, out))"
  using C1_error_retry_toggle [of exErrorState exError exErrorState exError exErrorState exError
      exPropsState "[''a'' \<mapsto> 2, ''b'' \<mapsto> 3]" "''Gene''" "Some [''a'' \<mapsto> 1]" exResolver failingParse]
    C1_error_retry_toggle [of exErrorState exError exErrorState exError exErrorState exError
      exPropsState "[''a'' \<mapsto> 2, ''b'' \<mapsto> 3]" "''Gene''" "Some [''a'' \<mapsto> 1]"
      "exResolver\<lparr>retrying := True\<rparr>" failingParse]
  by (simp add: exErrorState_simps exPropsState_simps exResolver_simps exResolver_def [symmetric])

text \<open>
  C2, as the specification states it: the returned function is pure, so two successive
  calls of one resolver on the same read state return equal elements. This fails on a
  read state with an error: the first call returns the failure view with \<open>onRetry\<close>,
  the second the failure view without it.
\<close>

theorem C2_pure_counterexample:
  "\<not> sameOutputTwice failingParse exResolver exErrorState"
proof -
  have "logNetworkError failingParse exError =
          Inr [(''Metaphysics Error: '' @ message exError @ [CHR 0x0A], Raw ''<html>'')]"
    using logNetworkError_body [of exError "\<lparr>bodyInit = Some ''<html>''\<rparr>" "''<html>''" failingParse]
    by (simp add: exError_def failingParse_def)
  then show ?thesis
    by (simp add: sameOutputTwice_def resolve_def and_then_def exErrorState_simps exResolver_simps)
qed

text \<open>
  C2, amended. The result of a call depends on the read state and on the captured
  \<open>retrying\<close>. On a read state with no error two successive calls of one resolver
  both return, with equal elements, and leave the closure as it was. On a read state
  with an error two successive calls both return failure views, one with the supplied
  \<open>retry\<close> as \<open>onRetry\<close> and one without \<open>onRetry\<close> (the first call has it when
  \<open>retrying\<close> was false), so the two elements differ; after the two calls the closure
  is as it was.
\<close>

theorem C2_repeatable_without_error:
  "(error rs = None \<longrightarrow>
      (\<exists>el. resolveAll P r [rs, rs] = Inr ([Some el, Some el], r, [])) \<and>
      sameOutputTwice P r rs) \<and>
   (error rs \<noteq> None \<longrightarrow>
      (\<exists>out. resolveAll P r [rs, rs] =
         Inr ([Some (LoadFailureView (if retrying r then None else Some (retry rs)) \<lparr>flex = 1\<rparr>),
               Some (LoadFailureView (if retrying r then Some (retry rs) else None) \<lparr>flex = 1\<rparr>)],
              r, out)) \<and>
      \<not> sameOutputTwice P r rs)"
proof (cases "error rs")
  case None
  then obtain el where "resolve P r rs = Inr (Some el, r, [])"
    using resolve_no_error by blast
  with None show ?thesis
    by (simp add: sameOutputTwice_def and_then_def)
next
  case (Some e)
  let ?r1 = "r\<lparr>retrying := \<not> retrying r\<rparr>"
  obtain out1 where s1: "resolve P r rs =
      Inr (Some (LoadFailureView (if retrying r then None else Some (retry rs)) \<lparr>flex = 1\<rparr>),
           ?r1, out1)"
    using resolve_error [OF Some, of P r] by blast
  obtain out2 where s2: "resolve P ?r1 rs =
      Inr (Some (LoadFailureView (if retrying ?r1 then None else Some (retry rs)) \<lparr>flex = 1\<rparr>),
           ?r1\<lparr>retrying := \<not> retrying ?r1\<rparr>, out2)"
    using resolve_error [OF Some, of P ?r1] by blast
  have restored: "?r1\<lparr>retrying := \<not> retrying ?r1\<rparr> = r"
    by simp
  have run: "resolveAll P r [rs, rs] =
      Inr ([Some (LoadFailureView (if retrying r then None else Some (retry rs)) \<lparr>flex = 1\<rparr>),
            Some (LoadFailureView (if retrying r then Some (retry rs) else None) \<lparr>flex = 1\<rparr>)],
           r, out1 @ out2)"
    using s2 unfolding restored by (simp add: s1 and_then_def)
  have differ: "\<not> sameOutputTwice P r rs"
    unfolding sameOutputTwice_def run by simp
  have both: "\<exists>out. resolveAll P r [rs, rs] =
      Inr ([Some (LoadFailureView (if retrying r then None else Some (retry rs)) \<lparr>flex = 1\<rparr>),
            Some (LoadFailureView (if retrying r then Some (retry rs) else None) \<lparr>flex = 1\<rparr>)],
           r, out)"
    by (rule exI [of _ "out1 @ out2"]) (rule run)
  from Some both differ show ?thesis
    by simp
qed

theorem C2_repeatable_without_error_witness:
  "error exPropsState = None \<and>
   resolveAll failingParse exResolver [exPropsState, exPropsState] =
     Inr ([Some (ContainerElement ''Gene'' [''a'' \<mapsto> 2, ''b'' \<mapsto> 3]),
           Some (ContainerElement ''Gene'' [''a'' \<mapsto> 2, ''b'' \<mapsto> 3])], exResolver, []) \<and>
   sameOutputTwice failingParse exResolver exPropsState \<and>
   error exErrorState \<noteq> None \<and>
   (\<exists>out. resolveAll acceptingParse exResolver [exErrorState, exErrorState] =
      Inr ([Some (LoadFailureView (Some 7) \<lparr>flex = 1\<rparr>),
            Some (LoadFailureView None \<lparr>flex = 1\<rparr>)], exResolver, out)) \<and>
   \<not> sameOutputTwice acceptingParse exResolver exErrorState"
proof -
  have props_call: "resolve failingParse exResolver exPropsState =
      Inr (Some (ContainerElement ''Gene'' [''a'' \<mapsto> 2, ''b'' \<mapsto> 3]), exResolver, [])"
    using resolve_props [of exPropsState "[''a'' \<mapsto> 2, ''b'' \<mapsto> 3]" failingParse exResolver]
    by (simp add: exPropsState_simps exResolver_simps)
  have props_run: "resolveAll failingParse exResolver [exPropsState, exPropsState] =
      Inr ([Some (ContainerElement ''Gene'' [''a'' \<mapsto> 2, ''b'' \<mapsto> 3]),
            Some (ContainerElement ''Gene'' [''a'' \<mapsto> 2, ''b'' \<mapsto> 3])], exResolver, [])"
    by (simp add: props_call and_then_def)
  from props_run
    C2_repeatable_without_error [of exPropsState failingParse exResolver]
    C2_repeatable_without_error [of exErrorState acceptingParse exResolver]
  show ?thesis
    by (simp add: exPropsState_simps exErrorState_simps exResolver_simps)
qed

text \<open>
  C3. On a read state with props and no error the resolver returns the container with
  \<open>initialProps\<close> merged under the delivered props: every key of the delivered props
  keeps the delivered value, every other key keeps the value of \<open>initialProps\<close>.
\<close>

theorem C3_props_merged:
  assumes "error rs = None" and "props rs = Some p"
  shows "resolve P r rs =
           Inr (Some (ContainerElement (Container r) (initialProps r ++ p)), r, []) \<and>
         (\<forall>k v. p k = Some v \<longrightarrow> (initialProps r ++ p) k = Some v) \<and>
         (\<forall>k. p k = None \<longrightarrow> (initialProps r ++ p) k = initialProps r k)"
  using resolve_props [OF assms, of P r] by (simp add: map_add_def)

theorem C3_props_merged_witness:
  "error exPropsState = None \<and> props exPropsState = Some [''a'' \<mapsto> 2, ''b'' \<mapsto> 3] \<and>
   initialProps exResolver = [''a'' \<mapsto> 1] \<and>
   resolve failingParse exResolver exPropsState =
     Inr (Some (ContainerElement ''Gene'' [''a'' \<mapsto> 2, ''b'' \<mapsto> 3]), exResolver, [])"
  using C3_props_merged [of exPropsState "[''a'' \<mapsto> 2, ''b'' \<mapsto> 3]" failingParse exResolver]
  by (simp add: exPropsState_simps exResolver_simps)

text \<open>
  C4. On a read state whose error carries a response with a non-empty body, the
  resolver passes the body to \<open>JSON.parse\<close> and logs the parsed value, or the body text
  when \<open>JSON.parse\<close> throws. Whatever \<open>JSON.parse\<close> does, the call does not throw and
  returns a failure view.
\<close>

theorem C4_parse_failure_swallowed:
  assumes "error rs = Some e" and "response e = Some resp"
    and "bodyInit resp = Some b" and "b \<noteq> []"
  shows "\<exists>onRetry r'. resolve P r rs =
           Inr (Some (LoadFailureView onRetry \<lparr>flex = 1\<rparr>), r',
                [(''Metaphysics Error: '' @ message e @ [CHR 0x0A],
                  (case P b of Inl x \<Rightarrow> Raw b | Inr j \<Rightarrow> Parsed j))])"
  using resolve_error [OF assms(1), of P r] logNetworkError_body [OF assms(2,3,4), of P]
  by auto

theorem C4_parse_failure_swallowed_witness:
  "error exErrorState = Some exError \<and>
   response exError = Some \<lparr>bodyInit = Some ''<html>''\<rparr> \<and>
   failingParse ''<html>'' = Inl SyntaxError \<and>
   (\<exists>onRetry r'. resolve failingParse exResolver exErrorState =
      Inr (Some (LoadFailureView onRetry \<lparr>flex = 1\<rparr>), r',
           [(''Metaphysics Error: Network request failed'' @ [CHR 0x0A], Raw ''<html>'')]))"
  using C4_parse_failure_swallowed [of exErrorState exError "\<lparr>bodyInit = Some ''<html>''\<rparr>"
      "''<html>''" failingParse exResolver]
  by (simp add: exErrorState_simps exError_def failingParse_def)

text \<open>
  C7. On a read state with neither error nor props (loading), the resolver returns
  the Spinner with the style \<open>{ flex: 1 }\<close>, and a failure view is returned with that
  same style.
\<close>

theorem C7_loading_spinner:
  assumes "error (rs :: ('k \<rightharpoonup> 'v, 'r) ReadyState) = None" and "props rs = None"
  shows "resolve P r rs = Inr (Some (Spinner \<lparr>flex = 1\<rparr>), r, []) \<and>
         (\<forall>(rs' :: ('k \<rightharpoonup> 'v, 'r) ReadyState) e. error rs' = Some e \<longrightarrow>
            (\<exists>onRetry r' out. resolve P r rs' =
               Inr (Some (LoadFailureView onRetry \<lparr>flex = 1\<rparr>), r', out)))"
  using resolve_loading [OF assms, of P r] resolve_error [of _ _ P r]
  by blast

theorem C7_loading_spinner_witness:
  "error exLoadingState = None \<and> props exLoadingState = None \<and>
   resolve failingParse exResolver exLoadingState =
     Inr (Some (Spinner \<lparr>flex = 1\<rparr>), exResolver, []) \<and>
   (\<exists>onRetry r' out. resolve failingParse exResolver exErrorState =
      Inr (Some (LoadFailureView onRetry \<lparr>flex = 1\<rparr>), r', out))"
  using C7_loading_spinner [of exLoadingState failingParse exResolver]
  by (auto simp: exLoadingState_simps exErrorState_simps)

text \<open>
  C9. A call on a read state with no error (props or loading) leaves the closure,
  and so \<open>retrying\<close>, as it was; a call on a read state with an error negates
  \<open>retrying\<close>. On the read states error, props or loading, error, a resolver from the
  factory returns for the second error the failure view without \<open>onRetry\<close>.
\<close>

theorem C9_only_errors_toggle:
  assumes "error mid = None" and "error rs1 = Some e1" and "error rs3 = Some e3"
  shows "(\<exists>el. resolve P r mid = Inr (Some el, r, [])) \<and>
         (\<exists>el r' out. resolve P r rs1 = Inr (el, r', out) \<and> retrying r' = (\<not> retrying r)) \<and>
         (\<exists>el1 el2 out. resolveAll P (makeResolver C ip) [rs1, mid, rs3] =
            Inr ([el1, el2, Some (LoadFailureView None \<lparr>flex = 1\<rparr>)], makeResolver C ip, out))"
proof -
  let ?r0 = "makeResolver C ip"
  let ?r1 = "?r0\<lparr>retrying := True\<rparr>"
  have frame: "\<exists>el. resolve P r mid = Inr (Some el, r, [])"
    using resolve_no_error [OF assms(1)] .
  have toggle: "\<exists>el r' out. resolve P r rs1 = Inr (el, r', out) \<and> retrying r' = (\<not> retrying r)"
    using resolve_error [OF assms(2), of P r] by auto
  obtain el1 out1 where s1: "resolve P ?r0 rs1 = Inr (el1, ?r1, out1)"
    using resolve_error [OF assms(2), of P ?r0] by (auto simp: makeResolver_def)
  obtain el2 where s2: "resolve P ?r1 mid = Inr (Some el2, ?r1, [])"
    using resolve_no_error [OF assms(1), of P ?r1] by blast
  obtain out3 where s3: "resolve P ?r1 rs3 =
      Inr (Some (LoadFailureView None \<lparr>flex = 1\<rparr>), ?r0, out3)"
    using resolve_error [OF assms(3), of P ?r1] by (auto simp: makeResolver_def)
  have "\<exists>el1 el2 out. resolveAll P ?r0 [rs1, mid, rs3] =
          Inr ([el1, el2, Some (LoadFailureView None \<lparr>flex = 1\<rparr>)], ?r0, out)"
    by (simp add: s1 s2 s3 and_then_def)
  with frame toggle show ?thesis by blast
qed

theorem C9_only_errors_toggle_witness:
  "error exPropsState = None \<and> error exLoadingState = None \<and> error exErrorState = Some exError \<and>
   (\<exists>el1 el2 out. resolveAll failingParse exResolver [exErrorState, exPropsState, exErrorState] =
      Inr ([el1, el2, Some (LoadFailureView None \<lparr>flex = 1\<rparr>)], exResolver, out)) \<and>
   (\<exists>el1 el2 out. resolveAll failingParse exResolver [exErrorState, exLoadingState, exErrorState] =
      Inr ([el1, el2, Some (LoadFailureView None \<lparr>flex = 1\<rparr>)], exResolver, out))"
  using C9_only_errors_toggle [of exPropsState exErrorState exError exErrorState exError
      failingParse exResolver "''Gene''" "Some [''a'' \<mapsto> 1]"]
    C9_only_errors_toggle [of exLoadingState exErrorState exError exErrorState exError
      failingParse exResolver "''Gene''" "Some [''a'' \<mapsto> 1]"]
  by (simp add: exPropsState_simps exLoadingState_simps exErrorState_simps exResolver_def [symmetric])

text \<open>
  C10. On every read state (error, props or neither), with any closure and any
  \<open>JSON.parse\<close>, the call returns an element: it does not throw, and it does not
  return \<open>null\<close>.
\<close>

theorem C10_never_null:
  "\<exists>el r' out. resolve P r rs = Inr (Some el, r', out)"
proof (cases "error rs")
  case None
  then show ?thesis using resolve_no_error [of rs P r] by blast
next
  case (Some e)
  then show ?thesis using resolve_error [of rs e P r] by blast
qed

section \<open>Properties of the tracking schema and the page-view wrapper\<close>

text \<open>
  C8. The \<open>owner_type\<close> of every Entity record is one of exactly seven entity kinds:
  Artist, Artwork, Conversation, Gene, Show, Invoice, Consignment, and the seven kinds
  stand for seven different strings.
\<close>

theorem C8_owner_type_closed:
  "owner_type (e :: Entity) \<in> set allOwnerEntityTypes \<and>
   allOwnerEntityTypes = [Artist, Artwork, Conversation, Gene, Show, Invoice, Consignment] \<and>
   length allOwnerEntityTypes = 7 \<and> distinct allOwnerEntityTypes \<and>
   set allOwnerEntityTypes = UNIV \<and>
   map OwnerEntityTypes_value allOwnerEntityTypes =
     [''Artist'', ''Artwork'', ''Conversation'', ''Gene'', ''Show'', ''Invoice'',
      ''ConsignmentSubmission''] \<and>
   distinct (map OwnerEntityTypes_value allOwnerEntityTypes)"
proof -
  have all: "x \<in> set allOwnerEntityTypes" for x
    by (cases x) (simp_all add: allOwnerEntityTypes_def)
  then have "set allOwnerEntityTypes = UNIV"
    by blast
  with all show ?thesis
    by (simp add: allOwnerEntityTypes_def)
qed

lemma lifecycleRun_pageViewTrack:
  "lifecycleRun (pageViewTrack post info) w evs =
     foldl (\<lambda>w d. snd (post d w)) w (map (trackingData info) (mountProps evs))"
proof (induction evs arbitrary: w)
  case Nil
  show ?case by simp
next
  case (Cons ev evs)
  show ?case
    by (cases ev) (simp_all add: Cons.IH, simp add: pageViewTrack_def lib_track_def pageViewTrackOptions_def)
qed

lemma mountProps_updates: "mountProps (map Update ps) = []"
  by (induction ps) simp_all

text \<open>
  C5. For a component wrapped with \<open>pageViewTrack\<close>, the sink is called once for every
  mount, with the record computed from the properties of that mount, and for nothing
  else: a mount followed by any number of property updates gives exactly one call.
\<close>

theorem C5_one_dispatch_per_mount:
  "lifecycleRun (pageViewTrack post info) w evs =
     foldl (\<lambda>w d. snd (post d w)) w (map (trackingData info) (mountProps evs)) \<and>
   lifecycleRun (pageViewTrack post info) w (Mount p # map Update ps) =
     snd (post (trackingData info p) w) \<and>
   lifecycleRun (pageViewTrack Events_postEvent info) posted (Mount p # map Update ps) =
     posted @ [trackingData info p]"
  by (simp only: lifecycleRun_pageViewTrack) (simp add: mountProps_updates Events_postEvent_def)

text \<open>
  C6. The dispatch hook of the page-view wrapper hands the record it is given,
  unchanged, to the sink \<open>Events.postEvent\<close>, once, and adds nothing of its own: no
  value is returned. Handed the same record twice it calls the sink twice, and the
  record is posted twice.
\<close>

theorem C6_dispatch_forwards:
  "dispatch (pageViewTrackOptions post) d w = post d w \<and>
   dispatch (pageViewTrackOptions post) d (snd (dispatch (pageViewTrackOptions post) d w)) =
     post d (snd (post d w)) \<and>
   dispatch (pageViewTrackOptions Events_postEvent) d posted = ((), posted @ [d]) \<and>
   dispatch (pageViewTrackOptions Events_postEvent) d
       (snd (dispatch (pageViewTrackOptions Events_postEvent) d posted)) = ((), posted @ [d, d])"
  by (simp add: pageViewTrackOptions_def Events_postEvent_def)

end
